theory Spec2Isabelle
  imports Complex_Main
begin

section \<open>The notebooks as functions\<close>

text \<open>
  The repository is a set of notebooks: scripts that build a circuit with PennyLane and
  fit its parameters in a training loop. The calls into PennyLane, JAX and optax
  (\<^verbatim>\<open>opt.step_and_cost\<close>, \<^verbatim>\<open>jax.value_and_grad\<close>,
  \<^verbatim>\<open>optimizer.update\<close>, \<^verbatim>\<open>optax.apply_updates\<close>, the circuits) are
  parameters of the functions below. A call may raise: its result is a sum, with
  \<open>Inl\<close> the exception. Evaluating a circuit runs on the notebook's device, so an
  objective takes an environment and returns the next one.
\<close>

subsection \<open>The loss of the state-learning notebook\<close>






subsection \<open>The training step of the state-learning notebook\<close>

text \<open>
  \<^verbatim>\<open>
  @jax.jit
  def train_step(params, opt_state, target_state):
      loss, grads = jax.value_and_grad(loss_fn)(params, target_state)
      updates, opt_state = optimizer.update(grads, opt_state)
      params = optax.apply_updates(params, updates)
      return params, opt_state, loss
  \<close>
  \<open>value_and_grad\<close> stands for \<^verbatim>\<open>jax.value_and_grad(loss_fn)\<close>, the one place where
  the objective is evaluated.
\<close>

definition train_step ::
  "('p \<Rightarrow> 't \<Rightarrow> 'e \<Rightarrow> ('x + 'c \<times> 'g) \<times> 'e) \<Rightarrow> ('g \<Rightarrow> 'o \<Rightarrow> 'x + 'u \<times> 'o) \<Rightarrow> ('p \<Rightarrow> 'u \<Rightarrow> 'x + 'p)
    \<Rightarrow> 'p \<Rightarrow> 'o \<Rightarrow> 't \<Rightarrow> 'e \<Rightarrow> ('x + 'p \<times> 'o \<times> 'c) \<times> 'e" where
  "train_step value_and_grad update apply_updates params opt_state target_state env =
     (case value_and_grad params target_state env of
        (Inl x, env') \<Rightarrow> (Inl x, env')
      | (Inr (loss, grads), env') \<Rightarrow>
          (case update grads opt_state of
             Inl x \<Rightarrow> (Inl x, env')
           | Inr (updates, opt_state') \<Rightarrow>
               (case apply_updates params updates of
                  Inl x \<Rightarrow> (Inl x, env')
                | Inr params' \<Rightarrow> (Inr (params', opt_state', loss), env'))))"

subsection \<open>The training loops\<close>

text \<open>
  Both loops have one shape: call the step on the current state, store the state it
  returns and append the cost it returns.
  \<^verbatim>\<open>
  for i in range(steps):
      params, cost = opt.step_and_cost(cost_fn, params)
      energy_track.append(cost)
  \<close>
  \<^verbatim>\<open>
  for i in range(num_steps):
      params, opt_state, loss = train_step(params, opt_state, target_state)
      loss_history.append(loss)
  \<close>
  An exception in the step leaves the loop: the assignment and the append of that
  iteration do not happen, and the variables keep the values of the iteration before.
  The result is the exception, if any, with the state and the trace at the end. The
  progress line printed every tenth iteration is output only and is left out.
\<close>

fun training_loop ::
  "('s \<Rightarrow> 'e \<Rightarrow> ('x + 's \<times> 'c) \<times> 'e) \<Rightarrow> nat \<Rightarrow> 's \<Rightarrow> 'c list \<Rightarrow> 'e \<Rightarrow> ('x option \<times> 's \<times> 'c list) \<times> 'e"
  where
  "training_loop step 0 s track env = ((None, s, track), env)"
| "training_loop step (Suc n) s track env =
     (case step s env of
        (Inl x, env') \<Rightarrow> ((Some x, s, track), env')
      | (Inr (s', cost), env') \<Rightarrow> training_loop step n s' (track @ [cost]) env')"

text \<open>
  The loop of the two-qubit VQE notebook, from \<^verbatim>\<open>energy_track = []\<close>; the notebook
  runs it with \<^verbatim>\<open>stepsize=0.2\<close>, \<^verbatim>\<open>steps = 50\<close> and the parameters
  \<^verbatim>\<open>[0.5, -0.5]\<close>.
\<close>

definition vqe_loop ::
  "('f \<Rightarrow> 'p \<Rightarrow> 'e \<Rightarrow> ('x + 'p \<times> 'c) \<times> 'e) \<Rightarrow> 'f \<Rightarrow> nat \<Rightarrow> 'p \<Rightarrow> 'e \<Rightarrow> ('x option \<times> 'p \<times> 'c list) \<times> 'e"
  where
  "vqe_loop step_and_cost cost_fn steps params env =
     training_loop (step_and_cost cost_fn) steps params [] env"

text \<open>
  The loop of the state-learning notebook, from \<^verbatim>\<open>loss_history = []\<close>; the notebook
  runs it with \<^verbatim>\<open>num_steps = 100\<close>.
\<close>

definition jax_loop ::
  "('p \<Rightarrow> 't \<Rightarrow> 'e \<Rightarrow> ('x + 'c \<times> 'g) \<times> 'e) \<Rightarrow> ('g \<Rightarrow> 'o \<Rightarrow> 'x + 'u \<times> 'o) \<Rightarrow> ('p \<Rightarrow> 'u \<Rightarrow> 'x + 'p)
    \<Rightarrow> 't \<Rightarrow> nat \<Rightarrow> 'p \<Rightarrow> 'o \<Rightarrow> 'e \<Rightarrow> ('x option \<times> ('p \<times> 'o) \<times> 'c list) \<times> 'e" where
  "jax_loop value_and_grad update apply_updates target_state num_steps params opt_state env =
     training_loop
       (\<lambda>(p, os) e.
          case train_step value_and_grad update apply_updates p os target_state e of
            (Inl x, e') \<Rightarrow> (Inl x, e')
          | (Inr (p', os', loss), e') \<Rightarrow> (Inr ((p', os'), loss), e'))
       num_steps (params, opt_state) [] env"

subsection \<open>Counting calls\<close>

text \<open>
  \<open>counted f\<close> is \<open>f\<close> with a counter beside its environment: every call adds one,
  whether it returns or raises.
\<close>

definition counted :: "('a \<Rightarrow> 'b \<Rightarrow> 'e \<Rightarrow> 'r \<times> 'e) \<Rightarrow> 'a \<Rightarrow> 'b \<Rightarrow> 'e \<times> nat \<Rightarrow> 'r \<times> 'e \<times> nat" where
  "counted f a b = (\<lambda>(env, n). case f a b env of (r, env') \<Rightarrow> (r, (env', Suc n)))"

subsection \<open>Concrete library calls\<close>

text \<open>
  Instances of the library calls on which the loops are run at concrete inputs: a
  one-parameter objective \<open>(p - t)\<^sup>2\<close> with its derivative, an update of a quarter of the
  negated gradient, and the addition of the update; the same step written as one call;
  and the two of them raising outside a domain.
\<close>

definition square_value_and_grad :: "real \<Rightarrow> real \<Rightarrow> unit \<Rightarrow> (string + real \<times> real) \<times> unit" where
  "square_value_and_grad p t env = (Inr ((p - t)\<^sup>2, 2 * (p - t)), env)"

definition scaled_update :: "real \<Rightarrow> unit \<Rightarrow> string + real \<times> unit" where
  "scaled_update g opt_state = Inr (- g / 4, opt_state)"

definition add_update :: "real \<Rightarrow> real \<Rightarrow> string + real" where
  "add_update p u = Inr (p + u)"

definition square_cost :: "real \<Rightarrow> real" where
  "square_cost p = p\<^sup>2"

definition halving_step :: "(real \<Rightarrow> real) \<Rightarrow> real \<Rightarrow> unit \<Rightarrow> (string + real \<times> real) \<times> unit" where
  "halving_step cost_fn p env = (Inr (p - (1/4) * (2 * p), cost_fn p), env)"

definition guarded_value_and_grad :: "real \<Rightarrow> real \<Rightarrow> unit \<Rightarrow> (string + real \<times> real) \<times> unit" where
  "guarded_value_and_grad p t env =
     (if p < 1/2 then (Inr ((p - t)\<^sup>2, 2 * (p - t)), env) else (Inl ''domain'', env))"

definition guarded_step :: "(real \<Rightarrow> real) \<Rightarrow> real \<Rightarrow> unit \<Rightarrow> (string + real \<times> real) \<times> unit" where
  "guarded_step cost_fn p env =
     (if 2 < p then (Inr (p - (1/4) * (2 * p), cost_fn p), env) else (Inl ''domain'', env))"

text \<open>
  A cost that falls from 5 to 1 over the first five iterations and is constant from then
  on, with a step that moves to the next iteration.
\<close>

definition ramp_cost :: "nat \<Rightarrow> real" where
  "ramp_cost k = (if k < 4 then 5 - real k else 1)"

definition advancing_step :: "(nat \<Rightarrow> real) \<Rightarrow> nat \<Rightarrow> unit \<Rightarrow> (string + nat \<times> real) \<times> unit" where
  "advancing_step cost_fn k env = (Inr (Suc k, cost_fn k), env)"

text \<open>
  Floating-point values as a library call may return them, with their addition, and an
  objective whose loss and gradient are NaN.
\<close>

datatype fvalue = Finite real | PosInf | NegInf | NaN

fun fadd :: "fvalue \<Rightarrow> fvalue \<Rightarrow> fvalue" where
  "fadd (Finite a) (Finite b) = Finite (a + b)"
| "fadd NaN _ = NaN"
| "fadd _ NaN = NaN"
| "fadd PosInf NegInf = NaN"
| "fadd NegInf PosInf = NaN"
| "fadd PosInf _ = PosInf"
| "fadd _ PosInf = PosInf"
| "fadd NegInf _ = NegInf"
| "fadd _ NegInf = NegInf"

definition nan_value_and_grad :: "fvalue list \<Rightarrow> unit \<Rightarrow> unit \<Rightarrow> (string + fvalue \<times> fvalue list) \<times> unit" where
  "nan_value_and_grad params target_state env = (Inr (NaN, map (\<lambda>p. NaN) params), env)"

definition plain_update :: "fvalue list \<Rightarrow> unit \<Rightarrow> string + fvalue list \<times> unit" where
  "plain_update grads opt_state = Inr (grads, opt_state)"

definition add_updates :: "fvalue list \<Rightarrow> fvalue list \<Rightarrow> string + fvalue list" where
  "add_updates params updates = Inr (map2 fadd params updates)"

section \<open>The steepest-descent step and the best entry of a trace\<close>

text \<open>
  Modelled from the spec: the body of the steepest-descent step, which the VQE notebook
  calls as \<^verbatim>\<open>opt.step_and_cost\<close> of \<^verbatim>\<open>qml.GradientDescentOptimizer\<close>, is not in
  the sources. The spec (4.1) has the step call the objective once, at the current
  parameters; the objective returns the scalar cost and the gradient at that point; the
  update rule is \<^verbatim>\<open>parameters[i] <- parameters[i] - step_size * gradient[i]\<close> for every
  coordinate, applied simultaneously; and the result is the new parameter vector with the
  cost observed before the update. A gradient has the shape of the parameter vector (spec,
  section 3). The arithmetic is that of any type with a difference and a product. The
  errors that the spec lists for a step are not part of this definition, since the
  sources raise none of them (C4); an exception of the objective is passed on.
\<close>

definition steepest_descent_step ::
  "'a::{minus,times} \<Rightarrow> ('a list \<Rightarrow> 'e \<Rightarrow> ('x + 'a \<times> 'a list) \<times> 'e) \<Rightarrow> 'a list \<Rightarrow> 'e \<Rightarrow> ('x + 'a list \<times> 'a) \<times> 'e"
  where
  "steepest_descent_step step_size objective parameters env =
     (case objective parameters env of
        (Inl x, env') \<Rightarrow> (Inl x, env')
      | (Inr (cost, gradient), env') \<Rightarrow>
          (Inr (map2 (\<lambda>p g. p - step_size * g) parameters gradient, cost), env'))"

text \<open>
  Modelled from the spec: \<^verbatim>\<open>best(trace)\<close> is not in the sources. The spec (4.1) has it
  return the position and the value of the minimum cost observed, ties broken by the
  earliest index. It is written as a scan from the left that keeps the position and the
  value of the least cost so far and replaces them only by a strictly smaller cost; an
  empty trace has no best entry.
\<close>

fun best_from :: "nat \<Rightarrow> nat \<times> 'a::linorder \<Rightarrow> 'a list \<Rightarrow> nat \<times> 'a" where
  "best_from i b [] = b"
| "best_from i (bi, bv) (x # xs) = best_from (Suc i) (if x < bv then (i, x) else (bi, bv)) xs"

definition best :: "'a::linorder list \<Rightarrow> (nat \<times> 'a) option" where
  "best trace = (case trace of [] \<Rightarrow> None | x # xs \<Rightarrow> Some (best_from 1 (0, x) xs))"

section \<open>The loss\<close>











section \<open>The training loops\<close>

subsection \<open>One step and one trace entry per iteration\<close>

lemma training_loop_length:
  "training_loop step n s tr e = ((None, s', tr'), e') \<Longrightarrow> length tr' = length tr + n"
  by (induction n arbitrary: s tr e) (auto split: prod.splits sum.splits)

lemma training_loop_extends:
  "training_loop step n s tr e = ((r, s', tr'), e') \<Longrightarrow> \<exists>ys. tr' = tr @ ys"
  by (induction n arbitrary: s tr e) (fastforce split: prod.splits sum.splits)+

lemma training_loop_calls:
  assumes "\<And>s e n r e' n'. step s (e, n) = (r, (e', n')) \<Longrightarrow> n' = Suc n"
  shows "training_loop step k s tr (e, n) = ((None, s', tr'), (e', n')) \<Longrightarrow> n' = n + k"
proof (induction k arbitrary: s tr e n)
  case 0
  then show ?case by simp
next
  case (Suc k)
  obtain r e1 n1 where st: "step s (e, n) = (r, (e1, n1))"
    by (metis prod.exhaust)
  then have n1: "n1 = Suc n" by (rule assms)
  from Suc.prems st obtain s1 c where "training_loop step k s1 (tr @ [c]) (e1, n1) = ((None, s', tr'), (e', n'))"
    by (auto split: sum.splits)
  then have "n' = n1 + k" by (rule Suc.IH)
  with n1 show ?case by simp
qed

lemma train_step_env:
  "snd (train_step vg update apply_updates params opt_state target env) = snd (vg params target env)"
  by (simp add: train_step_def split: prod.splits sum.splits)

lemma counted_env: "counted f a b (e, n) = (r, (e', n')) \<Longrightarrow> n' = Suc n"
  by (auto simp: counted_def split: prod.splits)

text \<open>
  C2. A run of N iterations that ends without an error has called the step N times and
  has a trace of N entries, one per step; in the state-learning loop, where the step is
  \<open>train_step\<close>, the objective has been evaluated N times, once per step.
\<close>

theorem trace_length_is_iteration_count:
  "(vqe_loop (counted step_and_cost) cost_fn N params (env0, n0) = ((None, p', track), (env1, n1)) \<longrightarrow>
      length track = N \<and> n1 = n0 + N) \<and>
   (jax_loop (counted value_and_grad) update apply_updates target M params2 opt_state (env2, m0)
        = ((None, s', history), (env3, m1)) \<longrightarrow>
      length history = M \<and> m1 = m0 + M) \<and>
   snd (snd (train_step (counted value_and_grad) update apply_updates p os target (env4, k))) = Suc k"
proof (intro conjI impI)
  show "snd (snd (train_step (counted value_and_grad) update apply_updates p os target (env4, k))) = Suc k"
    by (simp add: train_step_env counted_def split: prod.splits)
next
  assume a: "vqe_loop (counted step_and_cost) cost_fn N params (env0, n0) = ((None, p', track), (env1, n1))"
  from a show "length track = N"
    using training_loop_length [of "counted step_and_cost cost_fn" N params "[]" "(env0, n0)" p' track "(env1, n1)"]
    by (simp add: vqe_loop_def)
  from a show "n1 = n0 + N"
    unfolding vqe_loop_def
    by (rule training_loop_calls [rotated]) (rule counted_env)
next
  let ?step = "\<lambda>(p, os) e.
          case train_step (counted value_and_grad) update apply_updates p os target e of
            (Inl x, e') \<Rightarrow> (Inl x, e')
          | (Inr (p', os', loss), e') \<Rightarrow> (Inr ((p', os'), loss), e')"
  assume a: "jax_loop (counted value_and_grad) update apply_updates target M params2 opt_state (env2, m0)
        = ((None, s', history), (env3, m1))"
  from a show "length history = M"
    using training_loop_length [of ?step M "(params2, opt_state)" "[]" "(env2, m0)" s' history "(env3, m1)"]
    by (simp add: jax_loop_def)
  have st: "\<And>s e n r e' n'. ?step s (e, n) = (r, (e', n')) \<Longrightarrow> n' = Suc n"
  proof -
    fix s e n r e' n'
    assume h: "?step s (e, n) = (r, (e', n'))"
    obtain p os where s: "s = (p, os)" by (cases s)
    have "snd (?step s (e, n)) = snd (counted value_and_grad p target (e, n))"
      using train_step_env [of "counted value_and_grad" update apply_updates p os target "(e, n)"]
      by (auto simp: s split: prod.splits sum.splits)
    with h show "n' = Suc n"
      by (auto simp: counted_def split: prod.splits)
  qed
  from a show "m1 = m0 + M"
    unfolding jax_loop_def
    by (rule training_loop_calls [rotated]) (rule st)
qed

theorem trace_length_witness:
  "vqe_loop (counted halving_step) square_cost 2 4 ((), 0) = ((None, 1, [16, 4]), ((), 2)) \<and>
   jax_loop (counted square_value_and_grad) scaled_update add_update 1 2 0 () ((), 0)
     = ((None, (3/4, ()), [1, 1/4]), ((), 2)) \<and>
   length [16, 4 :: real] = 2 \<and> length [1, 1/4 :: real] = 2 \<and>
   snd (snd (train_step (counted square_value_and_grad) scaled_update add_update 0 () 1 ((), 0))) = 1"
  using trace_length_is_iteration_count [where step_and_cost = halving_step and cost_fn = square_cost
      and N = 2 and params = 4 and ?env0.0 = "()" and ?n0.0 = 0 and p' = 1 and track = "[16, 4]"
      and ?env1.0 = "()" and ?n1.0 = 2
      and value_and_grad = square_value_and_grad and update = scaled_update
      and apply_updates = add_update and target = 1 and M = 2 and ?params2.0 = 0 and opt_state = "()"
      and ?env2.0 = "()" and ?m0.0 = 0 and s' = "(3/4, ())" and history = "[1, 1/4]"
      and ?env3.0 = "()" and ?m1.0 = 2 and p = 0 and os = "()" and ?env4.0 = "()" and k = 0]
  by (simp add: vqe_loop_def jax_loop_def train_step_def counted_def halving_step_def square_cost_def
      square_value_and_grad_def scaled_update_def add_update_def numeral_2_eq_2 power2_eq_square)

subsection \<open>The recorded cost is the cost before the update\<close>

lemma training_loop_at:
  "training_loop step N s tr e = ((None, sN, trN), eN) \<Longrightarrow> i < N \<Longrightarrow>
   \<exists>si ei s' e'. training_loop step i s tr e = ((None, si, take (length tr + i) trN), ei) \<and>
      step si ei = (Inr (s', trN ! (length tr + i)), e')"
proof (induction N arbitrary: s tr e i)
  case 0
  then show ?case by simp
next
  case (Suc N)
  from Suc.prems(1) obtain s1 c e1 where st: "step s e = (Inr (s1, c), e1)"
    and rest: "training_loop step N s1 (tr @ [c]) e1 = ((None, sN, trN), eN)"
    by (auto split: prod.splits sum.splits)
  from training_loop_extends [OF rest] obtain ys where trN: "trN = tr @ c # ys" by auto
  show ?case
  proof (cases i)
    case 0
    with st trN show ?thesis by simp
  next
    case (Suc j)
    with Suc.prems(2) have "j < N" by simp
    from Suc.IH [OF rest this] obtain sj ej s' e' where
      "training_loop step j s1 (tr @ [c]) e1 = ((None, sj, take (length (tr @ [c]) + j) trN), ej)"
      "step sj ej = (Inr (s', trN ! (length (tr @ [c]) + j)), e')"
      by blast
    with st Suc show ?thesis by simp
  qed
qed

lemma train_step_loss:
  "train_step vg upd app p os t e = (Inr (p', os', c), e') \<Longrightarrow> \<exists>g. vg p t e = (Inr (c, g), e')"
  by (auto simp: train_step_def split: prod.splits sum.splits)

text \<open>
  C3. In a run that ends without an error, entry i of the trace is the cost returned by
  the step that was called with the parameters at the start of iteration i; in the
  state-learning loop it is the loss that the objective returned at these parameters,
  before the update is applied.
\<close>

theorem recorded_cost_is_cost_before_update:
  "(vqe_loop step_and_cost cost_fn N params env = ((None, pN, track), envN) \<and> i < N \<longrightarrow>
      (\<exists>p e p' e'. vqe_loop step_and_cost cost_fn i params env = ((None, p, take i track), e) \<and>
          step_and_cost cost_fn p e = (Inr (p', track ! i), e'))) \<and>
   (jax_loop value_and_grad update apply_updates target M params2 opt_state env2
        = ((None, sM, history), envM) \<and> j < M \<longrightarrow>
      (\<exists>p os e g e'. jax_loop value_and_grad update apply_updates target j params2 opt_state env2
            = ((None, (p, os), take j history), e) \<and>
          value_and_grad p target e = (Inr (history ! j, g), e'))) \<and>
   (train_step value_and_grad update apply_updates p3 os3 target env3 = (Inr (p4, os4, loss), env4) \<longrightarrow>
      (\<exists>g. value_and_grad p3 target env3 = (Inr (loss, g), env4)))"
proof (intro conjI impI)
  assume "train_step value_and_grad update apply_updates p3 os3 target env3 = (Inr (p4, os4, loss), env4)"
  then show "\<exists>g. value_and_grad p3 target env3 = (Inr (loss, g), env4)"
    by (rule train_step_loss)
next
  assume "vqe_loop step_and_cost cost_fn N params env = ((None, pN, track), envN) \<and> i < N"
  then show "\<exists>p e p' e'. vqe_loop step_and_cost cost_fn i params env = ((None, p, take i track), e) \<and>
          step_and_cost cost_fn p e = (Inr (p', track ! i), e')"
    using training_loop_at [of "step_and_cost cost_fn" N params "[]" env pN track envN i]
    by (simp add: vqe_loop_def)
next
  let ?step = "\<lambda>(p, os) e.
          case train_step value_and_grad update apply_updates p os target e of
            (Inl x, e') \<Rightarrow> (Inl x, e')
          | (Inr (p', os', loss), e') \<Rightarrow> (Inr ((p', os'), loss), e')"
  assume "jax_loop value_and_grad update apply_updates target M params2 opt_state env2
        = ((None, sM, history), envM) \<and> j < M"
  then obtain si ei s' e' where
    a: "training_loop ?step j (params2, opt_state) [] env2 = ((None, si, take j history), ei)"
    and b: "?step si ei = (Inr (s', history ! j), e')"
    using training_loop_at [of ?step M "(params2, opt_state)" "[]" env2 sM history envM j]
    by (auto simp: jax_loop_def)
  obtain p os where si: "si = (p, os)" by (cases si)
  from b si obtain p' os' where "train_step value_and_grad update apply_updates p os target ei
      = (Inr (p', os', history ! j), e')"
    by (auto split: prod.splits sum.splits)
  from train_step_loss [OF this] obtain g where "value_and_grad p target ei = (Inr (history ! j, g), e')" ..
  with a si show "\<exists>p os e g e'. jax_loop value_and_grad update apply_updates target j params2 opt_state env2
            = ((None, (p, os), take j history), e) \<and>
          value_and_grad p target e = (Inr (history ! j, g), e')"
    by (auto simp: jax_loop_def)
qed

theorem recorded_cost_witness:
  "vqe_loop halving_step square_cost 2 4 () = ((None, 1, [16, 4]), ()) \<and> (1::nat) < 2 \<and>
   (\<exists>p e p' e'. vqe_loop halving_step square_cost 1 4 () = ((None, p, take 1 [16, 4]), e) \<and>
      halving_step square_cost p e = (Inr (p', [16, 4] ! 1), e')) \<and>
   jax_loop square_value_and_grad scaled_update add_update 1 2 0 () ()
     = ((None, (3/4, ()), [1, 1/4]), ()) \<and>
   (\<exists>p os e g e'. jax_loop square_value_and_grad scaled_update add_update 1 1 0 () ()
       = ((None, (p, os), take 1 [1, 1/4]), e) \<and>
      square_value_and_grad p 1 e = (Inr ([1, 1/4] ! 1, g), e')) \<and>
   train_step square_value_and_grad scaled_update add_update 0 () 1 () = (Inr (1/2, (), 1), ()) \<and>
   (\<exists>g. square_value_and_grad 0 1 () = (Inr (1, g), ()))"
proof -
  have t: "train_step square_value_and_grad scaled_update add_update 0 () 1 () = (Inr (1/2, (), 1), ())"
    by (simp add: train_step_def square_value_and_grad_def scaled_update_def add_update_def)
  have v: "vqe_loop halving_step square_cost 2 4 () = ((None, 1, [16, 4]), ())"
    by (simp add: vqe_loop_def halving_step_def square_cost_def numeral_2_eq_2)
  have j: "jax_loop square_value_and_grad scaled_update add_update 1 2 0 () ()
     = ((None, (3/4, ()), [1, 1/4]), ())"
    by (simp add: jax_loop_def train_step_def square_value_and_grad_def scaled_update_def
        add_update_def numeral_2_eq_2 power2_eq_square)
  have l: "(1::nat) < 2" by simp
  from v j l t recorded_cost_is_cost_before_update [where step_and_cost = halving_step
      and cost_fn = square_cost and N = 2 and params = 4 and env = "()" and pN = 1
      and track = "[16, 4]" and envN = "()" and i = 1
      and value_and_grad = square_value_and_grad and update = scaled_update
      and apply_updates = add_update and target = 1 and M = 2 and ?params2.0 = 0
      and opt_state = "()" and ?env2.0 = "()" and sM = "(3/4, ())" and history = "[1, 1/4]"
      and envM = "()" and j = 1 and ?p3.0 = 0 and ?os3.0 = "()" and ?env3.0 = "()"
      and ?p4.0 = "1/2" and ?os4.0 = "()" and loss = 1 and ?env4.0 = "()"]
  show ?thesis by blast
qed

subsection \<open>Errors\<close>

text \<open>
  The claim C4 as stated, that a step fails when the objective returns a loss that is
  NaN and leaves the parameters as they were, is false: \<open>train_step\<close> returns the loss
  and the updated parameters.
\<close>

theorem nan_loss_passes_through:
  "train_step nan_value_and_grad plain_update add_updates [Finite 0] () () ()
     = (Inr ([NaN], (), NaN), ()) \<and> [NaN] \<noteq> [Finite 0]"
  by (simp add: train_step_def nan_value_and_grad_def plain_update_def add_updates_def)

lemma training_loop_failure:
  "training_loop step N s tr e = ((Some x, s', tr'), e') \<Longrightarrow>
   \<exists>k ek. k < N \<and> training_loop step k s tr e = ((None, s', tr'), ek) \<and> step s' ek = (Inl x, e')"
proof (induction N arbitrary: s tr e)
  case 0
  then show ?case by simp
next
  case (Suc N)
  obtain r e1 where st: "step s e = (r, e1)" by (cases "step s e")
  show ?case
  proof (cases r)
    case (Inl y)
    with st Suc.prems have "training_loop step 0 s tr e = ((None, s', tr'), e) \<and> step s' e = (Inl x, e')"
      by simp
    then show ?thesis by blast
  next
    case (Inr sc)
    obtain s1 c where sc: "sc = (s1, c)" by (cases sc)
    with Inr st Suc.prems have "training_loop step N s1 (tr @ [c]) e1 = ((Some x, s', tr'), e')"
      by simp
    from Suc.IH [OF this] obtain k ek where "k < N"
      "training_loop step k s1 (tr @ [c]) e1 = ((None, s', tr'), ek)" "step s' ek = (Inl x, e')"
      by blast
    with Inr st sc have "Suc k < Suc N \<and> training_loop step (Suc k) s tr e = ((None, s', tr'), ek)
        \<and> step s' ek = (Inl x, e')"
      by simp
    then show ?thesis by blast
  qed
qed

text \<open>
  C4, amended. \<open>train_step\<close> does not check the loss or the gradient: when its three
  calls return, it returns the updated parameters and the loss as they are. It raises
  only what one of its calls raises. A loop that ends with an exception has the
  parameters, the optimizer state and the trace of the last iteration that returned: the
  failing step changed none of them.
\<close>

theorem step_does_not_validate:
  "(value_and_grad params target env = (Inr (loss, grads), env') \<and>
    update grads opt_state = Inr (updates, opt_state') \<and>
    apply_updates params updates = Inr params' \<longrightarrow>
      train_step value_and_grad update apply_updates params opt_state target env
        = (Inr (params', opt_state', loss), env')) \<and>
   (train_step value_and_grad update apply_updates params opt_state target env = (Inl x, env') \<longrightarrow>
      value_and_grad params target env = (Inl x, env') \<or>
      (\<exists>l g. value_and_grad params target env = (Inr (l, g), env') \<and>
         (update g opt_state = Inl x \<or>
          (\<exists>u os. update g opt_state = Inr (u, os) \<and> apply_updates params u = Inl x)))) \<and>
   (jax_loop value_and_grad update apply_updates target M params2 opt_state2 env2
        = ((Some y, (p, os), history), envM) \<longrightarrow>
      (\<exists>k e. k < M \<and>
         jax_loop value_and_grad update apply_updates target k params2 opt_state2 env2
           = ((None, (p, os), history), e) \<and>
         train_step value_and_grad update apply_updates p os target e = (Inl y, envM))) \<and>
   (vqe_loop step_and_cost cost_fn N params3 env3 = ((Some z, q, track), envN) \<longrightarrow>
      (\<exists>k e. k < N \<and> vqe_loop step_and_cost cost_fn k params3 env3 = ((None, q, track), e) \<and>
         step_and_cost cost_fn q e = (Inl z, envN)))"
proof (intro conjI impI)
  assume "value_and_grad params target env = (Inr (loss, grads), env') \<and>
    update grads opt_state = Inr (updates, opt_state') \<and>
    apply_updates params updates = Inr params'"
  then show "train_step value_and_grad update apply_updates params opt_state target env
        = (Inr (params', opt_state', loss), env')"
    by (simp add: train_step_def)
next
  assume "train_step value_and_grad update apply_updates params opt_state target env = (Inl x, env')"
  then show "value_and_grad params target env = (Inl x, env') \<or>
      (\<exists>l g. value_and_grad params target env = (Inr (l, g), env') \<and>
         (update g opt_state = Inl x \<or>
          (\<exists>u os. update g opt_state = Inr (u, os) \<and> apply_updates params u = Inl x)))"
    by (auto simp: train_step_def split: prod.splits sum.splits)
next
  let ?step = "\<lambda>(p, os) e.
          case train_step value_and_grad update apply_updates p os target e of
            (Inl x, e') \<Rightarrow> (Inl x, e')
          | (Inr (p', os', loss), e') \<Rightarrow> (Inr ((p', os'), loss), e')"
  assume "jax_loop value_and_grad update apply_updates target M params2 opt_state2 env2
        = ((Some y, (p, os), history), envM)"
  then have "training_loop ?step M (params2, opt_state2) [] env2 = ((Some y, (p, os), history), envM)"
    by (simp add: jax_loop_def)
  from training_loop_failure [OF this] obtain k e where k: "k < M"
    and a: "training_loop ?step k (params2, opt_state2) [] env2 = ((None, (p, os), history), e)"
    and b: "?step (p, os) e = (Inl y, envM)"
    by blast
  from b have "train_step value_and_grad update apply_updates p os target e = (Inl y, envM)"
    by (auto split: prod.splits sum.splits)
  with k a show "\<exists>k e. k < M \<and>
         jax_loop value_and_grad update apply_updates target k params2 opt_state2 env2
           = ((None, (p, os), history), e) \<and>
         train_step value_and_grad update apply_updates p os target e = (Inl y, envM)"
    by (auto simp: jax_loop_def)
next
  assume "vqe_loop step_and_cost cost_fn N params3 env3 = ((Some z, q, track), envN)"
  then show "\<exists>k e. k < N \<and> vqe_loop step_and_cost cost_fn k params3 env3 = ((None, q, track), e) \<and>
         step_and_cost cost_fn q e = (Inl z, envN)"
    unfolding vqe_loop_def by (rule training_loop_failure)
qed

theorem step_does_not_validate_witness:
  "train_step square_value_and_grad scaled_update add_update 0 () 1 () = (Inr (1/2, (), 1), ()) \<and>
   train_step guarded_value_and_grad scaled_update add_update (1/2) () 1 () = (Inl ''domain'', ()) \<and>
   guarded_value_and_grad (1/2) 1 () = (Inl ''domain'', ()) \<and>
   jax_loop guarded_value_and_grad scaled_update add_update 1 3 0 () ()
     = ((Some ''domain'', (1/2, ()), [1]), ()) \<and>
   (\<exists>k e. k < 3 \<and> jax_loop guarded_value_and_grad scaled_update add_update 1 k 0 () ()
       = ((None, (1/2, ()), [1]), e)) \<and>
   vqe_loop guarded_step square_cost 3 4 () = ((Some ''domain'', 2, [16]), ()) \<and>
   (\<exists>k e. k < 3 \<and> vqe_loop guarded_step square_cost k 4 () = ((None, 2, [16]), e))"
proof -
  have a: "square_value_and_grad 0 1 () = (Inr (1, - 2), ()) \<and>
      scaled_update (- 2) () = Inr (1/2, ()) \<and> add_update 0 (1/2) = Inr (1/2)"
    by (simp add: square_value_and_grad_def scaled_update_def add_update_def)
  have b: "train_step guarded_value_and_grad scaled_update add_update (1/2) () 1 () = (Inl ''domain'', ())"
    by (simp add: train_step_def guarded_value_and_grad_def)
  have c: "jax_loop guarded_value_and_grad scaled_update add_update 1 3 0 () ()
     = ((Some ''domain'', (1/2, ()), [1]), ())"
    by (simp add: jax_loop_def train_step_def guarded_value_and_grad_def scaled_update_def
        add_update_def numeral_3_eq_3)
  have d: "vqe_loop guarded_step square_cost 3 4 () = ((Some ''domain'', 2, [16]), ())"
    by (simp add: vqe_loop_def guarded_step_def square_cost_def numeral_3_eq_3)
  have g: "guarded_value_and_grad (1/2) 1 () = (Inl ''domain'', ())"
    by (simp add: guarded_value_and_grad_def)
  have r1: "train_step square_value_and_grad scaled_update add_update 0 () 1 () = (Inr (1/2, (), 1), ())"
    using a step_does_not_validate [where value_and_grad = square_value_and_grad
      and update = scaled_update and apply_updates = add_update and params = 0 and target = 1
      and env = "()" and loss = 1 and grads = "- 2" and env' = "()" and opt_state = "()"
      and updates = "1/2" and opt_state' = "()" and params' = "1/2", THEN conjunct1]
    by simp
  have r3: "\<exists>k e. k < 3 \<and> jax_loop guarded_value_and_grad scaled_update add_update 1 k 0 () ()
       = ((None, (1/2, ()), [1]), e)"
    using c step_does_not_validate [where value_and_grad = guarded_value_and_grad
      and update = scaled_update and apply_updates = add_update and target = 1
      and M = 3 and ?params2.0 = 0 and ?opt_state2.0 = "()" and ?env2.0 = "()"
      and y = "''domain''" and p = "1/2" and os = "()" and history = "[1]" and envM = "()",
      THEN conjunct2, THEN conjunct2, THEN conjunct1]
    by blast
  have r4: "\<exists>k e. k < 3 \<and> vqe_loop guarded_step square_cost k 4 () = ((None, 2, [16]), e)"
    using d step_does_not_validate [where step_and_cost = guarded_step and cost_fn = square_cost and N = 3 and ?params3.0 = 4
      and ?env3.0 = "()" and z = "''domain''" and q = 2 and track = "[16]" and envN = "()",
      THEN conjunct2, THEN conjunct2, THEN conjunct2]
    by blast
  from r1 b g c r3 d r4 show ?thesis by simp
qed

subsection \<open>No early stopping\<close>

lemma training_loop_total:
  assumes "\<And>s e. \<exists>s' c e'. step s e = (Inr (s', c), e')"
  shows "\<exists>s' tr' e'. training_loop step N s tr e = ((None, s', tr'), e') \<and> length tr' = length tr + N"
proof (induction N arbitrary: s tr e)
  case 0
  show ?case by simp
next
  case (Suc N)
  from assms [of s e] obtain s1 c e1 where st: "step s e = (Inr (s1, c), e1)" by blast
  from Suc.IH [of s1 "tr @ [c]" e1] st show ?case by auto
qed

text \<open>
  The claim C5 as stated, that a run whose cost is constant after iteration 5 ends at
  iteration 6 whatever the number of iterations, is false: the loop of 50 iterations
  records 50 costs.
\<close>

theorem loop_ignores_convergence:
  "snd (snd (fst (vqe_loop advancing_step ramp_cost 50 0 ()))) = [5, 4, 3, 2] @ replicate 46 1 \<and>
   length (snd (snd (fst (vqe_loop advancing_step ramp_cost 50 0 ())))) \<noteq> 6"
  by (simp add: vqe_loop_def advancing_step_def ramp_cost_def eval_nat_numeral)

text \<open>
  C5, amended. The loops have no stopping tolerance: when no step raises, a run of N
  iterations performs all of them and records N costs, whatever the costs are.
\<close>

theorem loop_runs_every_iteration:
  "((\<forall>p e. \<exists>p' c e'. step_and_cost cost_fn p e = (Inr (p', c), e')) \<longrightarrow>
      (\<exists>p track e'. vqe_loop step_and_cost cost_fn N params env = ((None, p, track), e') \<and> length track = N)) \<and>
   ((\<forall>p os e. \<exists>r e'. train_step value_and_grad update apply_updates p os target e = (Inr r, e')) \<longrightarrow>
      (\<exists>s history e'. jax_loop value_and_grad update apply_updates target M params2 opt_state env2
           = ((None, s, history), e') \<and> length history = M))"
proof (intro conjI impI)
  assume "\<forall>p e. \<exists>p' c e'. step_and_cost cost_fn p e = (Inr (p', c), e')"
  then show "\<exists>p track e'. vqe_loop step_and_cost cost_fn N params env = ((None, p, track), e') \<and> length track = N"
    using training_loop_total [of "step_and_cost cost_fn" N params "[]" env]
    by (simp add: vqe_loop_def)
next
  let ?step = "\<lambda>(p, os) e.
          case train_step value_and_grad update apply_updates p os target e of
            (Inl x, e') \<Rightarrow> (Inl x, e')
          | (Inr (p', os', loss), e') \<Rightarrow> (Inr ((p', os'), loss), e')"
  assume t: "\<forall>p os e. \<exists>r e'. train_step value_and_grad update apply_updates p os target e = (Inr r, e')"
  have "\<exists>s' c e'. ?step s e = (Inr (s', c), e')" for s e
  proof -
    obtain p os where s: "s = (p, os)" by (cases s)
    from t obtain r e' where "train_step value_and_grad update apply_updates p os target e = (Inr r, e')"
      by blast
    then show ?thesis by (cases r) (auto simp: s)
  qed
  then show "\<exists>s history e'. jax_loop value_and_grad update apply_updates target M params2 opt_state env2
           = ((None, s, history), e') \<and> length history = M"
    using training_loop_total [of ?step M "(params2, opt_state)" "[]" env2]
    by (simp add: jax_loop_def)
qed

theorem loop_runs_every_iteration_witness:
  "(\<exists>p track e'. vqe_loop advancing_step ramp_cost 50 0 () = ((None, p, track), e') \<and> length track = 50) \<and>
   (\<exists>s history e'. jax_loop square_value_and_grad scaled_update add_update 1 100 0 () ()
       = ((None, s, history), e') \<and> length history = 100)"
  using loop_runs_every_iteration [where step_and_cost = advancing_step and cost_fn = ramp_cost
      and N = 50 and params = 0 and env = "()"
      and value_and_grad = square_value_and_grad and update = scaled_update
      and apply_updates = add_update and target = 1 and M = 100 and ?params2.0 = 0
      and opt_state = "()" and ?env2.0 = "()"]
  by (simp add: advancing_step_def train_step_def square_value_and_grad_def scaled_update_def add_update_def)

subsection \<open>Determinism\<close>

lemma training_loop_deterministic:
  assumes "\<And>s e e'. fst (step s e) = fst (step' s e')"
  shows "fst (training_loop step n s tr e1) = fst (training_loop step' n s tr e2)"
proof (induction n arbitrary: s tr e1 e2)
  case 0
  show ?case by simp
next
  case (Suc n)
  obtain r a where s1: "step s e1 = (r, a)" by (cases "step s e1")
  obtain r' b where s2: "step' s e2 = (r', b)" by (cases "step' s e2")
  from assms [of s e1 e2] s1 s2 have rr: "r' = r" by simp
  show ?case
  proof (cases r)
    case (Inl x)
    with s1 s2 rr show ?thesis by simp
  next
    case (Inr sc)
    obtain s' c where "sc = (s', c)" by (cases sc)
    with Inr s1 s2 rr Suc.IH [of s' "tr @ [c]" a b] show ?thesis by simp
  qed
qed

lemma train_step_deterministic:
  assumes "fst (vg p t e) = fst (vg' p t e')"
  shows "fst (train_step vg upd app p os t e) = fst (train_step vg' upd app p os t e')"
  using assms by (cases "vg p t e"; cases "vg' p t e'")
    (auto simp: train_step_def split: sum.splits prod.splits)

text \<open>
  C6. When the result of a step (in the state-learning loop: of the objective) does not
  depend on the environment it runs in, two runs from the same parameters with the same
  number of iterations, in any two environments, end with the same error or none, the
  same parameters and the same trace.
\<close>

theorem runs_are_deterministic:
  "((\<forall>p e e'. fst (step_and_cost cost_fn p e) = fst (step_and_cost cost_fn p e')) \<longrightarrow>
      fst (vqe_loop step_and_cost cost_fn N params env1) = fst (vqe_loop step_and_cost cost_fn N params env2)) \<and>
   ((\<forall>p e e'. fst (value_and_grad p target e) = fst (value_and_grad p target e')) \<longrightarrow>
      fst (jax_loop value_and_grad update apply_updates target M params2 opt_state env3)
        = fst (jax_loop value_and_grad update apply_updates target M params2 opt_state env4))"
proof (intro conjI impI)
  assume "\<forall>p e e'. fst (step_and_cost cost_fn p e) = fst (step_and_cost cost_fn p e')"
  then show "fst (vqe_loop step_and_cost cost_fn N params env1) = fst (vqe_loop step_and_cost cost_fn N params env2)"
    unfolding vqe_loop_def by (intro training_loop_deterministic) simp
next
  let ?step = "\<lambda>(p, os) e.
          case train_step value_and_grad update apply_updates p os target e of
            (Inl x, e') \<Rightarrow> (Inl x, e')
          | (Inr (p', os', loss), e') \<Rightarrow> (Inr ((p', os'), loss), e')"
  assume d: "\<forall>p e e'. fst (value_and_grad p target e) = fst (value_and_grad p target e')"
  have "fst (?step s e) = fst (?step s e')" for s e e'
  proof -
    obtain p os where s: "s = (p, os)" by (cases s)
    from d have "fst (train_step value_and_grad update apply_updates p os target e)
        = fst (train_step value_and_grad update apply_updates p os target e')"
      by (intro train_step_deterministic) simp
    then show ?thesis
      by (cases "train_step value_and_grad update apply_updates p os target e";
          cases "train_step value_and_grad update apply_updates p os target e'")
        (auto simp: s split: sum.splits)
  qed
  then show "fst (jax_loop value_and_grad update apply_updates target M params2 opt_state env3)
        = fst (jax_loop value_and_grad update apply_updates target M params2 opt_state env4)"
    unfolding jax_loop_def by (rule training_loop_deterministic)
qed

theorem runs_are_deterministic_witness:
  "fst (vqe_loop (counted halving_step) square_cost 2 4 ((), 0))
     = fst (vqe_loop (counted halving_step) square_cost 2 4 ((), 7)) \<and>
   fst (jax_loop (counted square_value_and_grad) scaled_update add_update 1 2 0 () ((), 0))
     = fst (jax_loop (counted square_value_and_grad) scaled_update add_update 1 2 0 () ((), 7))"
  using runs_are_deterministic [where step_and_cost = "counted halving_step" and cost_fn = square_cost
      and N = 2 and params = 4 and ?env1.0 = "((), 0)" and ?env2.0 = "((), 7)"
      and value_and_grad = "counted square_value_and_grad" and update = scaled_update
      and apply_updates = add_update and target = 1 and M = 2 and ?params2.0 = 0
      and opt_state = "()" and ?env3.0 = "((), 0)" and ?env4.0 = "((), 7)"]
  by (simp add: counted_def halving_step_def square_value_and_grad_def split: prod.splits)

section \<open>The steepest-descent step\<close>

text \<open>
  C1. A step whose objective returns a cost and a gradient of the length of the
  parameter vector returns a vector of the same length whose coordinate i is
  \<open>parameters ! i - step_size * gradient ! i\<close>, for every i, with the gradient that the
  objective returned at the parameters passed in.
\<close>

theorem steepest_descent_rule:
  "objective parameters env = (Inr (cost, gradient), env') \<and> length gradient = length parameters \<longrightarrow>
     (\<exists>new. steepest_descent_step step_size objective parameters env = (Inr (new, cost), env') \<and>
        length new = length parameters \<and>
        (\<forall>i < length parameters. new ! i = parameters ! i - step_size * gradient ! i))"
  by (simp add: steepest_descent_step_def)

theorem steepest_descent_rule_witness:
  "length [- 2, 2 :: real] = length [0, 0 :: real] \<and>
   steepest_descent_step (1/2) (\<lambda>p e. (Inr (2, [- 2, 2]) :: string + real \<times> real list, e)) [0, 0] ()
     = (Inr ([1, - 1], 2), ())"
  using steepest_descent_rule [of "\<lambda>p e. (Inr (2, [- 2, 2]) :: string + real \<times> real list, e)"
      "[0, 0]" "()" 2 "[- 2, 2]" "()" "1/2"]
  by (simp add: steepest_descent_step_def)

section \<open>The best entry of a trace\<close>

lemma best_from_spec:
  assumes "bi < i" "bi < length pre" "pre ! bi = bv" "length pre = i"
    "\<forall>j < length pre. bv \<le> pre ! j" "\<forall>j < bi. bv < pre ! j"
  shows "\<exists>k. best_from i (bi, bv) xs = (k, (pre @ xs) ! k) \<and> k < length (pre @ xs) \<and>
     (\<forall>j < length (pre @ xs). (pre @ xs) ! k \<le> (pre @ xs) ! j) \<and>
     (\<forall>j < k. (pre @ xs) ! k < (pre @ xs) ! j)"
  using assms
proof (induction xs arbitrary: i bi bv pre)
  case Nil
  then show ?case by auto
next
  case (Cons x xs)
  show ?case
  proof (cases "x < bv")
    case True
    have "\<exists>k. best_from (Suc i) (i, x) xs = (k, ((pre @ [x]) @ xs) ! k) \<and> k < length ((pre @ [x]) @ xs) \<and>
       (\<forall>j < length ((pre @ [x]) @ xs). ((pre @ [x]) @ xs) ! k \<le> ((pre @ [x]) @ xs) ! j) \<and>
       (\<forall>j < k. ((pre @ [x]) @ xs) ! k < ((pre @ [x]) @ xs) ! j)"
    proof (rule Cons.IH)
      show "i < Suc i" by simp
      show "i < length (pre @ [x])" using Cons.prems by simp
      show "(pre @ [x]) ! i = x" using Cons.prems by (simp add: nth_append)
      show "length (pre @ [x]) = Suc i" using Cons.prems by simp
      show "\<forall>j<length (pre @ [x]). x \<le> (pre @ [x]) ! j"
        using Cons.prems True by (auto simp: nth_append less_Suc_eq intro: less_imp_le order.strict_trans2)
      show "\<forall>j<i. x < (pre @ [x]) ! j"
        using Cons.prems True by (auto simp: nth_append intro: order.strict_trans2)
    qed
    with True show ?thesis by simp
  next
    case False
    have "\<exists>k. best_from (Suc i) (bi, bv) xs = (k, ((pre @ [x]) @ xs) ! k) \<and> k < length ((pre @ [x]) @ xs) \<and>
       (\<forall>j < length ((pre @ [x]) @ xs). ((pre @ [x]) @ xs) ! k \<le> ((pre @ [x]) @ xs) ! j) \<and>
       (\<forall>j < k. ((pre @ [x]) @ xs) ! k < ((pre @ [x]) @ xs) ! j)"
    proof (rule Cons.IH)
      show "bi < Suc i" using Cons.prems by simp
      show "bi < length (pre @ [x])" using Cons.prems by simp
      show "(pre @ [x]) ! bi = bv" using Cons.prems by (simp add: nth_append)
      show "length (pre @ [x]) = Suc i" using Cons.prems by simp
      show "\<forall>j<length (pre @ [x]). bv \<le> (pre @ [x]) ! j"
        using Cons.prems False by (auto simp: nth_append less_Suc_eq)
      show "\<forall>j<bi. bv < (pre @ [x]) ! j"
        using Cons.prems by (auto simp: nth_append)
    qed
    with False show ?thesis by simp
  qed
qed

text \<open>
  C8. \<open>best\<close> of a trace that is not empty is the position and the value of the minimum
  of the recorded costs, at the earliest position that holds the minimum; \<open>best\<close> is a
  function of the trace alone, so two calls on one trace give one result.
\<close>

theorem best_is_earliest_minimum:
  "best ([] :: 'a::linorder list) = None \<and>
   ((trace :: 'a list) \<noteq> [] \<longrightarrow>
     (\<exists>k. best trace = Some (k, trace ! k) \<and> k < length trace \<and> trace ! k = Min (set trace) \<and>
        (\<forall>j < k. trace ! j \<noteq> Min (set trace))))"
proof (intro conjI impI)
  show "best ([] :: 'a list) = None" by (simp add: best_def)
next
  assume "trace \<noteq> []"
  then obtain x xs where t: "trace = x # xs" by (cases trace) auto
  have "\<exists>k. best_from 1 (0, x) xs = (k, ([x] @ xs) ! k) \<and> k < length ([x] @ xs) \<and>
     (\<forall>j < length ([x] @ xs). ([x] @ xs) ! k \<le> ([x] @ xs) ! j) \<and>
     (\<forall>j < k. ([x] @ xs) ! k < ([x] @ xs) ! j)"
    by (rule best_from_spec) simp_all
  then obtain k where b: "best_from 1 (0, x) xs = (k, trace ! k)" and k: "k < length trace"
    and le: "\<forall>j < length trace. trace ! k \<le> trace ! j" and lt: "\<forall>j < k. trace ! k < trace ! j"
    using t by auto
  have m: "Min (set trace) = trace ! k"
  proof (rule Min_eqI)
    show "finite (set trace)" by simp
    show "trace ! k \<in> set trace" using k by simp
    fix y assume "y \<in> set trace"
    then obtain j where "j < length trace" "trace ! j = y" by (auto simp: in_set_conv_nth)
    with le show "trace ! k \<le> y" by auto
  qed
  have "best trace = Some (k, trace ! k)" using b t by (simp add: best_def)
  moreover have "\<forall>j < k. trace ! j \<noteq> Min (set trace)" using lt m by auto
  ultimately show "\<exists>k. best trace = Some (k, trace ! k) \<and> k < length trace \<and>
      trace ! k = Min (set trace) \<and> (\<forall>j < k. trace ! j \<noteq> Min (set trace))"
    using k m by auto
qed

theorem best_is_earliest_minimum_witness:
  "[3, 1, 2, 1 :: int] \<noteq> [] \<and> best [3, 1, 2, 1 :: int] = Some (1, 1) \<and> Min (set [3, 1, 2, 1 :: int]) = 1"
  using best_is_earliest_minimum [of "[3, 1, 2, 1 :: int]"]
  by (simp add: best_def)

end
